theory Spec2Isabelle
  imports Main
begin

section \<open>JavaScript values\<close>

text \<open>
  The notification actions of \<^verbatim>\<open>react/features/notifications/actions.js\<close> work on
  untyped JavaScript objects, so the embedding starts with the values the code can meet.
  A \<open>jsval\<close> is a value that is only read: a primitive, or an object nobody else holds
  a reference to (an object literal, the result of \<^verbatim>\<open>JSON.parse\<close>, a configuration
  object). Numbers are the integers (millisecond counts and identifiers); the array of
  the configuration is typed separately, in \<open>app_state\<close>.
\<close>

datatype jsval =
    JUndefined
  | JNull
  | JBool bool
  | JNum int
  | JStr string
  | JObj "(string \<times> jsval) list"

datatype error = TypeError | SyntaxError

text \<open>
  The payload handed to \<^verbatim>\<open>showNotification\<close> is written to, and the caller may keep
  the object it passes. The objects callers keep live in a store, addressed by numbers;
  a payload is either a reference into the store or a value.
\<close>

type_synonym obj = "(string \<times> jsval) list"

type_synonym store = "nat \<Rightarrow> obj"

datatype payload = Val jsval | Ref nat

text \<open>Truthiness, as \<^verbatim>\<open>if (v)\<close>, \<^verbatim>\<open>!v\<close>, \<^verbatim>\<open>a || b\<close> and \<^verbatim>\<open>a && b\<close> read a value.\<close>

fun truthy :: "jsval \<Rightarrow> bool" where
  "truthy JUndefined = False"
| "truthy JNull = False"
| "truthy (JBool b) = b"
| "truthy (JNum n) = (n \<noteq> 0)"
| "truthy (JStr s) = (s \<noteq> [])"
| "truthy (JObj fs) = True"

fun truthy_payload :: "payload \<Rightarrow> bool" where
  "truthy_payload (Val v) = truthy v"
| "truthy_payload (Ref a) = True"

text \<open>\<^verbatim>\<open>v == null\<close>: the value is \<^verbatim>\<open>null\<close> or \<^verbatim>\<open>undefined\<close>.\<close>

fun nullish :: "jsval \<Rightarrow> bool" where
  "nullish JUndefined = True"
| "nullish JNull = True"
| "nullish v = False"

text \<open>Reading a property of an object: a missing property reads as \<^verbatim>\<open>undefined\<close>.\<close>

fun lookup :: "obj \<Rightarrow> string \<Rightarrow> jsval" where
  "lookup [] k = JUndefined"
| "lookup ((k', v) # fs) k = (if k = k' then v else lookup fs k)"

text \<open>Writing a property of an object: an existing property is replaced, a new one is added.\<close>

fun put :: "string \<Rightarrow> jsval \<Rightarrow> obj \<Rightarrow> obj" where
  "put k v [] = [(k, v)]"
| "put k v ((k', v') # fs) = (if k = k' then (k, v) # fs else (k', v') # put k v fs)"

text \<open>
  \<^verbatim>\<open>v.k\<close>: reading a property of \<^verbatim>\<open>null\<close> or \<^verbatim>\<open>undefined\<close> throws a TypeError. The
  properties this code reads (\<^verbatim>\<open>description\<close>, \<^verbatim>\<open>id\<close>, \<^verbatim>\<open>senderInfo\<close>, \<^verbatim>\<open>name\<close>,
  \<^verbatim>\<open>deviceMessageType\<close>, \<^verbatim>\<open>handledAt\<close>, \<^verbatim>\<open>sendTo\<close>, \<^verbatim>\<open>isRaisedHand\<close>, \<^verbatim>\<open>content\<close>,
  \<^verbatim>\<open>descriptionKey\<close>, \<^verbatim>\<open>titleKey\<close>, \<^verbatim>\<open>uid\<close>, \<^verbatim>\<open>props\<close>, \<^verbatim>\<open>isMicMuted\<close>,
  \<^verbatim>\<open>isEndStream\<close>, \<^verbatim>\<open>short\<close>, \<^verbatim>\<open>medium\<close>, \<^verbatim>\<open>long\<close>) are no properties of a boolean,
  a number or a string, which therefore read as \<^verbatim>\<open>undefined\<close>.
\<close>

fun member :: "jsval \<Rightarrow> string \<Rightarrow> error + jsval" where
  "member JUndefined k = Inl TypeError"
| "member JNull k = Inl TypeError"
| "member (JObj fs) k = Inr (lookup fs k)"
| "member v k = Inr JUndefined"

text \<open>\<^verbatim>\<open>v?.k\<close>: optional chaining gives \<^verbatim>\<open>undefined\<close> where \<^verbatim>\<open>v.k\<close> would throw.\<close>

fun opt_member :: "jsval \<Rightarrow> string \<Rightarrow> jsval" where
  "opt_member (JObj fs) k = lookup fs k"
| "opt_member v k = JUndefined"

text \<open>\<^verbatim>\<open>props.k\<close> and \<^verbatim>\<open>props?.k\<close> on a payload.\<close>

fun get :: "store \<Rightarrow> payload \<Rightarrow> string \<Rightarrow> error + jsval" where
  "get st (Ref a) k = Inr (lookup (st a) k)"
| "get st (Val v) k = member v k"

fun opt_get :: "store \<Rightarrow> payload \<Rightarrow> string \<Rightarrow> jsval" where
  "opt_get st (Ref a) k = lookup (st a) k"
| "opt_get st (Val v) k = opt_member v k"

text \<open>
  \<^verbatim>\<open>props.k = x\<close>. Through a reference the stored object changes; on an object held by
  value the local variable holds the changed object afterwards. The second component of
  the result is the value of the variable after the assignment. On \<^verbatim>\<open>null\<close>,
  \<^verbatim>\<open>undefined\<close> and (the file is a module, hence strict code) on a primitive value the
  assignment throws a TypeError.
\<close>

fun assign :: "store \<Rightarrow> payload \<Rightarrow> string \<Rightarrow> jsval \<Rightarrow> error + (store \<times> payload)" where
  "assign st (Ref a) k x = Inr (st(a := put k x (st a)), Ref a)"
| "assign st (Val (JObj fs)) k x = Inr (st, Val (JObj (put k x fs)))"
| "assign st (Val v) k x = Inl TypeError"

text \<open>Sequencing of computations that may throw.\<close>

definition bindE :: "error + 'a \<Rightarrow> ('a \<Rightarrow> error + 'b) \<Rightarrow> error + 'b" where
  "bindE m f = (case m of Inl e \<Rightarrow> Inl e | Inr x \<Rightarrow> f x)"

text \<open>
  Computations that change the store and may throw: the result is the store reached, and
  either the error thrown or the value computed. \<open>bindS\<close> runs the next step on the
  store the previous one left; after a throw nothing more runs.
\<close>

definition bindS ::
  "store \<times> (error + 'a) \<Rightarrow> (store \<Rightarrow> 'a \<Rightarrow> store \<times> (error + 'b)) \<Rightarrow> store \<times> (error + 'b)" where
  "bindS m f = (case snd m of Inl e \<Rightarrow> (fst m, Inl e) | Inr x \<Rightarrow> f (fst m) x)"

definition assignS :: "store \<Rightarrow> payload \<Rightarrow> string \<Rightarrow> jsval \<Rightarrow> store \<times> (error + payload)" where
  "assignS st v k x = (case assign st v k x of Inl e \<Rightarrow> (st, Inl e) | Inr r \<Rightarrow> (fst r, Inr (snd r)))"

text \<open>A parameter declared as \<^verbatim>\<open>props: Object = {}\<close>: \<^verbatim>\<open>undefined\<close> becomes a fresh empty object.\<close>

fun default_props :: "payload \<Rightarrow> payload" where
  "default_props (Val JUndefined) = Val (JObj [])"
| "default_props v = v"

text \<open>\<^verbatim>\<open>n.toString()\<close> of a non-negative integer: its decimal digits.\<close>

definition digit_char :: "nat \<Rightarrow> char" where
  "digit_char d = ''0123456789'' ! d"

fun toString :: "nat \<Rightarrow> string" where
  "toString n =
     (if n < 10 then [digit_char n]
      else toString (n div 10) @ [digit_char (n mod 10)])"

section \<open>What the module reads from outside\<close>

text \<open>
  The constants of \<^verbatim>\<open>./constants\<close> are imported by the source and are not part of it;
  they are parameters of the model.
\<close>

record constants =
  NOTIFICATION_TIMEOUT_SHORT :: jsval
  NOTIFICATION_TIMEOUT_MEDIUM :: jsval
  NOTIFICATION_TIMEOUT_LONG :: jsval
  NOTIFICATION_TIMEOUT_STICKY :: jsval
  NOTIFICATION_TIMEOUT_INSTANT :: jsval
  NOTIFICATION_TIMEOUT_TYPE_SHORT :: jsval
  NOTIFICATION_TIMEOUT_TYPE_MEDIUM :: jsval
  NOTIFICATION_TIMEOUT_TYPE_LONG :: jsval
  SILENT_JOIN_THRESHOLD :: int
  SILENT_LEFT_THRESHOLD :: int

text \<open>
  The platform: \<^verbatim>\<open>JSON.parse\<close> (\<open>None\<close> when it throws a SyntaxError) and the clock
  \<^verbatim>\<open>window.Date.now()\<close>.
\<close>

record env =
  JSON_parse :: "jsval \<Rightarrow> jsval option"
  Date_now :: nat

definition parseE :: "env \<Rightarrow> jsval \<Rightarrow> error + jsval" where
  "parseE env d = (case JSON_parse env d of None \<Rightarrow> Inl SyntaxError | Some p \<Rightarrow> Inr p)"

text \<open>
  What the thunks read through \<^verbatim>\<open>getState()\<close>: the result of
  \<^verbatim>\<open>getFeatureFlag(state, NOTIFICATIONS_ENABLED, true)\<close>, the configuration entries
  \<^verbatim>\<open>notifications\<close> (an array of keys, or not configured) and \<^verbatim>\<open>notificationTimeouts\<close>,
  the current conference and the result of \<^verbatim>\<open>getParticipantCount(state)\<close>.
\<close>

record app_state =
  enabledFlag :: jsval
  notifications :: "string list option"
  notificationTimeouts :: jsval
  conference :: jsval
  participantCount :: int

section \<open>getNotificationTimeout\<close>

text \<open>\<^verbatim>\<open>a ?? b\<close>\<close>

definition coalesce :: "jsval \<Rightarrow> jsval \<Rightarrow> jsval" where
  "coalesce a b = (if nullish a then b else a)"

definition getNotificationTimeout :: "constants \<Rightarrow> jsval \<Rightarrow> jsval \<Rightarrow> jsval" where
  "getNotificationTimeout cs type nts =
     (if type = NOTIFICATION_TIMEOUT_TYPE_SHORT cs
        then coalesce (opt_member nts ''short'') (NOTIFICATION_TIMEOUT_SHORT cs)
      else if type = NOTIFICATION_TIMEOUT_TYPE_MEDIUM cs
        then coalesce (opt_member nts ''medium'') (NOTIFICATION_TIMEOUT_MEDIUM cs)
      else if type = NOTIFICATION_TIMEOUT_TYPE_LONG cs
        then coalesce (opt_member nts ''long'') (NOTIFICATION_TIMEOUT_LONG cs)
      else NOTIFICATION_TIMEOUT_STICKY cs)"

section \<open>showNotification\<close>

text \<open>The action \<^verbatim>\<open>{ type: SHOW_NOTIFICATION, props, timeout, uid }\<close>.\<close>

record show_action =
  action_props :: payload
  action_timeout :: jsval
  action_uid :: jsval

text \<open>\<^verbatim>\<open>props.description?.deviceMessageType\<close>\<close>

definition deviceMessageType :: "store \<Rightarrow> payload \<Rightarrow> error + jsval" where
  "deviceMessageType st props =
     bindE (get st props ''description'') (\<lambda>d. Inr (opt_member d ''deviceMessageType''))"

definition isAudioMuted :: "store \<Rightarrow> payload \<Rightarrow> error + jsval" where
  "isAudioMuted st props0 =
     bindE (deviceMessageType st (default_props props0)) (\<lambda>t.
       if t = JStr ''PAUSE_SESSION'' then Inr (JBool True)
       else if t = JStr ''RESUME_SESSION'' then Inr (JBool False)
       else Inr JNull)"

text \<open>\<^verbatim>\<open>(props.description.id != null) ? props.description?.id : "raisAHand"\<close>\<close>

definition messageId_value :: "store \<Rightarrow> payload \<Rightarrow> error + jsval" where
  "messageId_value st props =
     bindE (get st props ''description'') (\<lambda>d.
     bindE (member d ''id'') (\<lambda>i.
       if \<not> nullish i then Inr (opt_member d ''id'') else Inr (JStr ''raisAHand'')))"

text \<open>
  \<^verbatim>\<open>(typeof props.description.senderInfo !== 'undefined')
      ? props?.description?.senderInfo?.name : "ViCE"\<close>
\<close>

definition title_value :: "store \<Rightarrow> payload \<Rightarrow> error + jsval" where
  "title_value st props =
     bindE (get st props ''description'') (\<lambda>d.
     bindE (member d ''senderInfo'') (\<lambda>s.
       if s \<noteq> JUndefined
       then Inr (opt_member (opt_member (opt_get st props ''description'') ''senderInfo'') ''name'')
       else Inr (JStr ''ViCE'')))"

text \<open>\<^verbatim>\<open>(props.description?.deviceMessageType === "CONSULTATION_ENDED") ? true : false\<close>\<close>

definition isEndStream_value :: "store \<Rightarrow> payload \<Rightarrow> error + jsval" where
  "isEndStream_value st props =
     bindE (deviceMessageType st props) (\<lambda>t. Inr (JBool (t = JStr ''CONSULTATION_ENDED'')))"

text \<open>
  The result is the store after the call, and either the error thrown or the value
  returned. A throw after the first assignment leaves that assignment in the store.
\<close>

definition restructureProps :: "env \<Rightarrow> store \<Rightarrow> payload \<Rightarrow> store \<times> (error + payload)" where
  "restructureProps env st props0 =
     (let props = default_props props0 in
      bindS (st, get st props ''description'') (\<lambda>st d.
      if \<not> truthy d then (st, Inr props) else
      bindS (st, parseE env d) (\<lambda>st p.
      bindS (assignS st props ''description'' p) (\<lambda>st1 props1.
      bindS (st1, messageId_value st1 props1) (\<lambda>st1 i.
      bindS (assignS st1 props1 ''messageId'' i) (\<lambda>st2 props2.
      bindS (st2, title_value st2 props2) (\<lambda>st2 t.
      bindS (assignS st2 props2 ''title'' t) (\<lambda>st3 props3.
      bindS (st3, isEndStream_value st3 props3) (\<lambda>st3 s.
      bindS (assignS st3 props3 ''isEndStream'' s) (\<lambda>st4 props4.
      bindS (st4, isAudioMuted st4 props4) (\<lambda>st4 m.
      bindS (assignS st4 props4 ''isMicMuted'' m) (\<lambda>st5 props5.
      (st5, Inr props5)))))))))))))"

text \<open>\<^verbatim>\<open>notifications.includes(key)\<close> on the configured array of keys.\<close>

definition array_includes :: "string list \<Rightarrow> jsval \<Rightarrow> bool" where
  "array_includes xs k = (case k of JStr s \<Rightarrow> s \<in> set xs | _ \<Rightarrow> False)"

text \<open>
  \<^verbatim>\<open>!notifications || notifications.includes(props.descriptionKey)
      || notifications.includes(props.titleKey)\<close>
\<close>

definition allowListed :: "app_state \<Rightarrow> store \<Rightarrow> payload \<Rightarrow> bool" where
  "allowListed app st props =
     (case notifications app of
        None \<Rightarrow> True
      | Some xs \<Rightarrow> array_includes xs (opt_get st props ''descriptionKey'')
                 \<or> array_includes xs (opt_get st props ''titleKey''))"

text \<open>
  The eligibility expression, with the grouping JavaScript gives it (\<^verbatim>\<open>&&\<close> binds
  tighter than \<^verbatim>\<open>||\<close>):
  \<^verbatim>\<open>(enabledFlag && !props.description.handledAt)
   || (type === "CONSULTATION_ENDED" && props.description?.sendTo === "clinician")
   || (props.description?.isRaisedHand === true)
   || (type === "CONSULTATION_ENDED" && (!notifications || ... ))\<close>
  where \<^verbatim>\<open>type\<close> is \<^verbatim>\<open>props.description?.deviceMessageType\<close>. The only operand that can
  throw is \<^verbatim>\<open>props.description.handledAt\<close>, which is evaluated exactly when
  \<^verbatim>\<open>enabledFlag\<close> is truthy.
\<close>

definition shouldDisplay :: "app_state \<Rightarrow> store \<Rightarrow> payload \<Rightarrow> error + bool" where
  "shouldDisplay app st props =
     bindE (get st props ''description'') (\<lambda>d.
     bindE (if truthy (enabledFlag app)
            then bindE (member d ''handledAt'') (\<lambda>h. Inr (\<not> truthy h))
            else Inr False) (\<lambda>first.
       Inr (first
            \<or> (opt_member d ''deviceMessageType'' = JStr ''CONSULTATION_ENDED''
                 \<and> opt_member d ''sendTo'' = JStr ''clinician'')
            \<or> opt_member d ''isRaisedHand'' = JBool True
            \<or> (opt_member d ''deviceMessageType'' = JStr ''CONSULTATION_ENDED''
                 \<and> allowListed app st props))))"

text \<open>The text that replaces \<^verbatim>\<open>props.description\<close> when the notification is displayed.\<close>

definition descriptionText :: "store \<Rightarrow> payload \<Rightarrow> error + jsval" where
  "descriptionText st props =
     bindE (get st props ''description'') (\<lambda>d.
       if opt_member d ''deviceMessageType'' = JStr ''MESSAGE''
         then member d ''content''
       else if opt_member d ''deviceMessageType'' = JStr ''CONSULTATION_ENDED''
         then Inr (JStr ''Consulation phase has ended'')
       else if opt_member d ''deviceMessageType'' = JStr ''PAUSE_SESSION''
         then Inr (JStr ''Session is paused'')
       else if opt_member d ''deviceMessageType'' = JStr ''RESUME_SESSION''
         then Inr (JStr ''Session is resumed'')
       else Inr (JStr ''Raised a Hand''))"

text \<open>\<^verbatim>\<open>props.uid || window.Date.now().toString()\<close>\<close>

definition uid_value :: "env \<Rightarrow> store \<Rightarrow> payload \<Rightarrow> jsval" where
  "uid_value env st props =
     (if truthy (opt_get st props ''uid'') then opt_get st props ''uid''
      else JStr (toString (Date_now env)))"

text \<open>
  The thunk returned by \<^verbatim>\<open>showNotification(props, type)\<close>, run on a state. The result
  is the store after the run and either the error thrown or what was dispatched
  (\<open>None\<close>: nothing). The argument \<open>type\<close> is accepted and never read, as in the source.
\<close>

definition showNotification ::
  "constants \<Rightarrow> env \<Rightarrow> app_state \<Rightarrow> store \<Rightarrow> payload \<Rightarrow> jsval \<Rightarrow> store \<times> (error + show_action option)" where
  "showNotification cs env app st props0 type =
     bindS (restructureProps env st (default_props props0)) (\<lambda>st1 props.
     bindS (st1, isAudioMuted st1 props) (\<lambda>st1 isMicMuted.
     if \<not> truthy_payload props then (st1, Inr None) else
     bindS (st1, shouldDisplay app st1 props) (\<lambda>st1 display.
     if \<not> display then (st1, Inr None) else
     bindS (st1, descriptionText st1 props) (\<lambda>st1 text.
     bindS (assignS st1 props ''description'' text) (\<lambda>st2 props2.
     (st2, Inr (Some \<lparr> action_props = props2,
                       action_timeout = (if isMicMuted \<noteq> JNull
                                         then NOTIFICATION_TIMEOUT_INSTANT cs
                                         else NOTIFICATION_TIMEOUT_LONG cs),
                       action_uid = uid_value env st2 props2 \<rparr>)))))))"

section \<open>hideNotification\<close>

text \<open>
  What a thunk dispatches: \<^verbatim>\<open>muteLocal(enable, mediaType)\<close>, the action
  \<^verbatim>\<open>{ type: HIDE_NOTIFICATION, uid, conference }\<close> and \<^verbatim>\<open>appNavigate(uri)\<close>.
\<close>

datatype media_type = AUDIO | VIDEO

datatype dispatched =
    MUTE_LOCAL jsval media_type
  | HIDE_NOTIFICATION jsval jsval
  | APP_NAVIGATE jsval

text \<open>
  A run of the thunk dispatches some actions before it returns, in order
  (\<open>now\<close>), and may leave a callback on the promise it returns; \<open>later\<close> is
  what that callback dispatches, after the dispatch the promise was made from has
  returned.
\<close>

record hide_run =
  now :: "dispatched list"
  later :: "dispatched list"

text \<open>
  \<^verbatim>\<open>hideNotification(uid, notification = null)\<close>, the thunk run on a state. The
  snapshot is only read, so it is a value.
\<close>

definition hideNotification :: "app_state \<Rightarrow> jsval \<Rightarrow> jsval \<Rightarrow> error + hide_run" where
  "hideNotification app uid notification0 =
     (let notification = (if notification0 = JUndefined then JNull else notification0);
          hide = HIDE_NOTIFICATION uid (conference app)
      in if truthy notification then
           bindE (member notification ''props'') (\<lambda>props.
           bindE (member props ''isMicMuted'') (\<lambda>m.
             let mute = (if \<not> nullish m then [MUTE_LOCAL m AUDIO] else []) in
             bindE (member props ''isEndStream'') (\<lambda>e.
               if truthy e
               then Inr \<lparr> now = mute @ [hide], later = [APP_NAVIGATE JUndefined] \<rparr>
               else Inr \<lparr> now = mute @ [hide], later = [] \<rparr>)))
         else Inr \<lparr> now = [hide], later = [] \<rparr>)"

section \<open>Batched join and leave notifications\<close>

text \<open>The \<^verbatim>\<open>notificationProps\<close> the flush builds from the names collected (\<open>None\<close>: left undefined).\<close>

definition joinedNotificationProps :: "string list \<Rightarrow> jsval option" where
  "joinedNotificationProps names =
     (if length names \<ge> 3 then
        Some (JObj [(''titleArguments'', JObj [(''name'', JStr (names ! 0))]),
                    (''titleKey'', JStr ''notify.connectedThreePlusMembers'')])
      else if length names = 2 then
        Some (JObj [(''titleArguments'', JObj [(''first'', JStr (names ! 0)),
                                               (''second'', JStr (names ! 1))]),
                    (''titleKey'', JStr ''notify.connectedTwoMembers'')])
      else if length names \<noteq> 0 then
        Some (JObj [(''titleArguments'', JObj [(''name'', JStr (names ! 0))]),
                    (''titleKey'', JStr ''notify.connectedOneMember'')])
      else None)"

definition leftNotificationProps :: "string list \<Rightarrow> jsval option" where
  "leftNotificationProps names =
     (if length names \<ge> 3 then
        Some (JObj [(''titleArguments'', JObj [(''name'', JStr (names ! 0))]),
                    (''titleKey'', JStr ''notify.leftThreePlusMembers'')])
      else if length names = 2 then
        Some (JObj [(''titleArguments'', JObj [(''first'', JStr (names ! 0)),
                                               (''second'', JStr (names ! 1))]),
                    (''titleKey'', JStr ''notify.leftTwoMembers'')])
      else if length names \<noteq> 0 then
        Some (JObj [(''titleArguments'', JObj [(''name'', JStr (names ! 0))]),
                    (''titleKey'', JStr ''notify.leftOneMember'')])
      else None)"

text \<open>
  The state of a flush: the store, and the module variable \<^verbatim>\<open>joinedParticipantsNames\<close>
  (or \<^verbatim>\<open>leftParticipantsNames\<close>). The flush dispatches the thunk of
  \<^verbatim>\<open>showNotification\<close>, which runs at once; when it throws, the statement after the
  dispatch, which empties the list, is not reached.
\<close>

record flush_result =
  store_after :: store
  names_after :: "string list"
  outcome :: "error + show_action option"

definition flush ::
  "(string list \<Rightarrow> jsval option) \<Rightarrow> int \<Rightarrow> constants \<Rightarrow> env \<Rightarrow> app_state \<Rightarrow> store \<Rightarrow> string list
     \<Rightarrow> flush_result" where
  "flush template threshold cs env app st names =
     (if participantCount app > threshold
      then \<lparr> store_after = st, names_after = [], outcome = Inr None \<rparr>
      else case template names of
        None \<Rightarrow> \<lparr> store_after = st, names_after = [], outcome = Inr None \<rparr>
      | Some notificationProps \<Rightarrow>
          (case showNotification cs env app st (Val notificationProps)
                  (NOTIFICATION_TIMEOUT_TYPE_SHORT cs) of
             (st', Inl e) \<Rightarrow> \<lparr> store_after = st', names_after = names, outcome = Inl e \<rparr>
           | (st', Inr a) \<Rightarrow> \<lparr> store_after = st', names_after = [], outcome = Inr a \<rparr>))"

definition throttledNotifyParticipantConnected ::
  "constants \<Rightarrow> env \<Rightarrow> app_state \<Rightarrow> store \<Rightarrow> string list \<Rightarrow> flush_result" where
  "throttledNotifyParticipantConnected cs =
     flush joinedNotificationProps (SILENT_JOIN_THRESHOLD cs) cs"

definition throttledNotifyParticipantLeft ::
  "constants \<Rightarrow> env \<Rightarrow> app_state \<Rightarrow> store \<Rightarrow> string list \<Rightarrow> flush_result" where
  "throttledNotifyParticipantLeft cs =
     flush leftNotificationProps (SILENT_LEFT_THRESHOLD cs) cs"

section \<open>The timer registry\<close>

text \<open>
  \<^verbatim>\<open>timers\<close> is the module's \<^verbatim>\<open>Map\<close> from uid to timer handle. \<open>armed\<close> is the
  platform's side of \<^verbatim>\<open>setTimeout\<close>: the timers that are waiting, each with its handle,
  the uid its callback will hide, and its delay; \<open>next_handle\<close> is the handle the next
  \<^verbatim>\<open>setTimeout\<close> returns.
\<close>

record timer_state =
  timers :: "jsval \<Rightarrow> nat option"
  armed :: "(nat \<times> jsval \<times> jsval) list"
  next_handle :: nat

definition createTimeoutId :: "show_action \<Rightarrow> timer_state \<Rightarrow> timer_state" where
  "createTimeoutId notification ts =
     (let timeout = action_timeout notification; uid = action_uid notification in
      if truthy timeout then
        (let timerID = next_handle ts in
         ts \<lparr> armed := armed ts @ [(timerID, uid, timeout)],
              next_handle := Suc timerID,
              timers := (timers ts)(uid \<mapsto> timerID) \<rparr>)
      else ts)"

definition armed_for :: "jsval \<Rightarrow> timer_state \<Rightarrow> nat list" where
  "armed_for uid ts = map fst (filter (\<lambda>t. fst (snd t) = uid) (armed ts))"

text \<open>The registry when the module is loaded, \<^verbatim>\<open>new Map()\<close>, with no timer armed.\<close>

definition initial_timers :: timer_state where
  "initial_timers = \<lparr> timers = Map.empty, armed = [], next_handle = 0 \<rparr>"


subsection \<open>The callers of createTimeoutId\<close>

text \<open>
  The source defines \<^verbatim>\<open>timers\<close> and \<^verbatim>\<open>createTimeoutId\<close> and never uses them: the
  cases of the middleware that arm and clear timers are not part of it. They are taken
  from the specification.
\<close>










section \<open>The payload as a list of fields\<close>

text \<open>
  \<^verbatim>\<open>showNotification\<close> reads and writes its payload property by property. The
  definitions of this section describe the same run on the list of fields of the
  payload, whether the payload is held by reference or by value; the lemmas below show
  that \<open>showNotification\<close> computes exactly this.
\<close>

fun fields_of :: "store \<Rightarrow> payload \<Rightarrow> obj" where
  "fields_of st (Ref r) = st r"
| "fields_of st (Val (JObj fs)) = fs"
| "fields_of st (Val v) = []"

fun is_object :: "payload \<Rightarrow> bool" where
  "is_object (Ref r) = True"
| "is_object (Val (JObj fs)) = True"
| "is_object (Val v) = False"

fun with_fields :: "store \<Rightarrow> payload \<Rightarrow> obj \<Rightarrow> store \<times> payload" where
  "with_fields st (Ref r) fs = (st(r := fs), Ref r)"
| "with_fields st (Val v) fs = (st, Val (JObj fs))"

text \<open>The values \<^verbatim>\<open>restructureProps\<close> stores, as functions of the parsed description.\<close>

definition messageId_of :: "jsval \<Rightarrow> jsval" where
  "messageId_of p = (if \<not> nullish (opt_member p ''id'') then opt_member p ''id'' else JStr ''raisAHand'')"

definition title_of :: "jsval \<Rightarrow> jsval" where
  "title_of p = (if opt_member p ''senderInfo'' \<noteq> JUndefined
                 then opt_member (opt_member p ''senderInfo'') ''name'' else JStr ''ViCE'')"

definition micMuted_of :: "jsval \<Rightarrow> jsval" where
  "micMuted_of d = (if opt_member d ''deviceMessageType'' = JStr ''PAUSE_SESSION'' then JBool True
                    else if opt_member d ''deviceMessageType'' = JStr ''RESUME_SESSION'' then JBool False
                    else JNull)"

definition restructured :: "jsval \<Rightarrow> obj \<Rightarrow> obj" where
  "restructured p fs =
     put ''isMicMuted'' (micMuted_of p)
       (put ''isEndStream'' (JBool (opt_member p ''deviceMessageType'' = JStr ''CONSULTATION_ENDED''))
         (put ''title'' (title_of p)
           (put ''messageId'' (messageId_of p)
             (put ''description'' p fs))))"

text \<open>The eligibility expression and the display text, on a description that is not nullish.\<close>

definition eligible :: "app_state \<Rightarrow> jsval \<Rightarrow> obj \<Rightarrow> bool" where
  "eligible app d fs =
     ((truthy (enabledFlag app) \<and> \<not> truthy (opt_member d ''handledAt''))
      \<or> (opt_member d ''deviceMessageType'' = JStr ''CONSULTATION_ENDED''
           \<and> opt_member d ''sendTo'' = JStr ''clinician'')
      \<or> opt_member d ''isRaisedHand'' = JBool True
      \<or> (opt_member d ''deviceMessageType'' = JStr ''CONSULTATION_ENDED''
           \<and> (case notifications app of None \<Rightarrow> True
               | Some xs \<Rightarrow> array_includes xs (lookup fs ''descriptionKey'')
                          \<or> array_includes xs (lookup fs ''titleKey''))))"

definition display_text :: "jsval \<Rightarrow> jsval" where
  "display_text d =
     (if opt_member d ''deviceMessageType'' = JStr ''MESSAGE'' then opt_member d ''content''
      else if opt_member d ''deviceMessageType'' = JStr ''CONSULTATION_ENDED''
        then JStr ''Consulation phase has ended''
      else if opt_member d ''deviceMessageType'' = JStr ''PAUSE_SESSION''
        then JStr ''Session is paused''
      else if opt_member d ''deviceMessageType'' = JStr ''RESUME_SESSION''
        then JStr ''Session is resumed''
      else JStr ''Raised a Hand'')"

definition timeout_of :: "constants \<Rightarrow> jsval \<Rightarrow> jsval" where
  "timeout_of cs d = (if micMuted_of d \<noteq> JNull then NOTIFICATION_TIMEOUT_INSTANT cs
                      else NOTIFICATION_TIMEOUT_LONG cs)"

definition uid_of :: "env \<Rightarrow> obj \<Rightarrow> jsval" where
  "uid_of env fs = (if truthy (lookup fs ''uid'') then lookup fs ''uid''
                    else JStr (toString (Date_now env)))"

definition finish :: "constants \<Rightarrow> env \<Rightarrow> app_state \<Rightarrow> obj \<Rightarrow> jsval \<Rightarrow> obj \<times> (error + (jsval \<times> jsval) option)" where
  "finish cs env app fs d =
     (if truthy (enabledFlag app) \<and> nullish d then (fs, Inl TypeError)
      else if eligible app d fs
        then (put ''description'' (display_text d) fs, Inr (Some (timeout_of cs d, uid_of env fs)))
      else (fs, Inr None))"

definition show_fields :: "constants \<Rightarrow> env \<Rightarrow> app_state \<Rightarrow> obj \<Rightarrow> obj \<times> (error + (jsval \<times> jsval) option)" where
  "show_fields cs env app fs =
     (let d0 = lookup fs ''description'' in
      if \<not> truthy d0 then finish cs env app fs d0
      else case JSON_parse env d0 of
             None \<Rightarrow> (fs, Inl SyntaxError)
           | Some p \<Rightarrow> if nullish p then (put ''description'' p fs, Inl TypeError)
                       else finish cs env app (restructured p fs) p)"

definition lift_result :: "store \<Rightarrow> payload \<Rightarrow> obj \<times> (error + (jsval \<times> jsval) option) \<Rightarrow> store \<times> (error + show_action option)" where
  "lift_result st q r =
     (fst (with_fields st q (fst r)),
      map_sum id (map_option (\<lambda>tu. \<lparr> action_props = snd (with_fields st q (fst r)),
                                      action_timeout = fst tu, action_uid = snd tu \<rparr>)) (snd r))"

text \<open>
  The description as \<^verbatim>\<open>showNotification\<close> sees it after \<^verbatim>\<open>restructureProps\<close>: the
  result of \<^verbatim>\<open>JSON.parse\<close> when the payload carries a truthy description, the
  description itself otherwise; and its \<^verbatim>\<open>deviceMessageType\<close>.
\<close>

definition parsed_description :: "env \<Rightarrow> store \<Rightarrow> payload \<Rightarrow> jsval" where
  "parsed_description env st props =
     (let d = opt_get st props ''description'' in
      if truthy d then (case JSON_parse env d of None \<Rightarrow> JUndefined | Some p \<Rightarrow> p) else d)"

definition description_type :: "env \<Rightarrow> store \<Rightarrow> payload \<Rightarrow> jsval" where
  "description_type env st props = opt_member (parsed_description env st props) ''deviceMessageType''"

section \<open>Sample inputs\<close>

text \<open>
  \<^verbatim>\<open>JSON.parse\<close> on the JSON texts the examples below pass to it. The examples pass no
  other text.
\<close>

definition JSON_parse_table :: \<open>jsval \<Rightarrow> jsval option\<close> where
  \<open>JSON_parse_table d =
     (if d = JStr ''{"isRaisedHand":true}''
        then Some (JObj [(''isRaisedHand'', JBool True)])
      else if d = JStr ''{"deviceMessageType":"PAUSE_SESSION"}''
        then Some (JObj [(''deviceMessageType'', JStr ''PAUSE_SESSION'')])
      else if d = JStr ''{"deviceMessageType":"MESSAGE","content":"hello"}''
        then Some (JObj [(''deviceMessageType'', JStr ''MESSAGE''), (''content'', JStr ''hello'')])
      else if d = JStr ''{"handledAt":1}''
        then Some (JObj [(''handledAt'', JNum 1)])
      else None)\<close>

text \<open>
  Values for the constants of \<^verbatim>\<open>./constants\<close>, which the source imports. The examples
  below depend on them only where they say so.
\<close>

definition sample_constants :: constants where
  "sample_constants =
     \<lparr> NOTIFICATION_TIMEOUT_SHORT = JNum 2500,
       NOTIFICATION_TIMEOUT_MEDIUM = JNum 5000,
       NOTIFICATION_TIMEOUT_LONG = JNum 10000,
       NOTIFICATION_TIMEOUT_STICKY = JBool False,
       NOTIFICATION_TIMEOUT_INSTANT = JNum 1,
       NOTIFICATION_TIMEOUT_TYPE_SHORT = JStr ''short'',
       NOTIFICATION_TIMEOUT_TYPE_MEDIUM = JStr ''medium'',
       NOTIFICATION_TIMEOUT_TYPE_LONG = JStr ''long'',
       SILENT_JOIN_THRESHOLD = 30,
       SILENT_LEFT_THRESHOLD = 30 \<rparr>"

definition sample_env :: env where
  "sample_env = \<lparr> JSON_parse = JSON_parse_table, Date_now = 1700000000000 \<rparr>"

definition sample_state :: "jsval \<Rightarrow> app_state" where
  "sample_state flag =
     \<lparr> enabledFlag = flag, notifications = None, notificationTimeouts = JUndefined,
       conference = JStr ''room'', participantCount = 2 \<rparr>"

definition empty_store :: store where
  "empty_store = (\<lambda>a. [])"

text \<open>
  Three payloads the caller keeps: at address 0 a pause request with a uid, at address 1
  a chat message, at address 2 a request that has been handled already.
\<close>

definition sample_store :: store where
  \<open>sample_store =
     (\<lambda>a. if a = 0 then [(''uid'', JStr ''n1''),
                          (''description'', JStr ''{"deviceMessageType":"PAUSE_SESSION"}'')]
          else if a = 1 then [(''description'',
                               JStr ''{"deviceMessageType":"MESSAGE","content":"hello"}'')]
          else if a = 2 then [(''description'', JStr ''{"handledAt":1}'')]
          else [])\<close>

text \<open>A dispatched action to arm timers for.\<close>

definition sample_action :: show_action where
  "sample_action = \<lparr> action_props = Ref 0, action_timeout = JNum 10000, action_uid = JStr ''n1'' \<rparr>"

section \<open>Evaluation rules\<close>

text \<open>
  The definitions unfolded when a run is evaluated on a concrete input, and the rules
  that run a sequence of steps from left to right: the congruence rules keep the
  simplifier out of a continuation until the step before it has a result.
\<close>

lemmas show_defs = showNotification_def restructureProps_def parseE_def
  messageId_value_def title_value_def isEndStream_value_def isAudioMuted_def deviceMessageType_def
  shouldDisplay_def descriptionText_def uid_value_def allowListed_def array_includes_def

lemmas sample_defs = sample_env_def sample_state_def sample_constants_def JSON_parse_table_def
  empty_store_def sample_store_def digit_char_def

lemma bindS_Inl: "bindS (st, Inl e) f = (st, Inl e)"
  by (simp add: bindS_def)

lemma bindS_Inr: "bindS (st, Inr x) f = f st x"
  by (simp add: bindS_def)

lemma bindE_Inl: "bindE (Inl e) f = Inl e"
  by (simp add: bindE_def)

lemma bindE_Inr: "bindE (Inr x) f = f x"
  by (simp add: bindE_def)

lemma bindS_weak_cong: "m = m' \<Longrightarrow> bindS m f = bindS m' f"
  by simp

lemma bindE_weak_cong: "m = m' \<Longrightarrow> bindE m f = bindE m' f"
  by simp

lemma assignS_Ref: "assignS st (Ref a) k x = (st(a := put k x (st a)), Inr (Ref a))"
  by (simp add: assignS_def)

lemma assignS_Obj: "assignS st (Val (JObj fs)) k x = (st, Inr (Val (JObj (put k x fs))))"
  by (simp add: assignS_def)

lemmas bind_simps = bindS_Inl bindS_Inr bindE_Inl bindE_Inr assignS_Ref assignS_Obj

text \<open>Reading after writing, and reading where nothing can throw.\<close>

lemma lookup_put: "lookup (put k v fs) k' = (if k' = k then v else lookup fs k')"
  by (induction fs) auto

lemma member_Inr: "\<not> nullish v \<Longrightarrow> member v k = Inr (opt_member v k)"
  by (cases v) simp_all

lemma member_Inl: "nullish v \<Longrightarrow> member v k = Inl TypeError"
  by (cases v) simp_all

lemma opt_member_nullish: "nullish v \<Longrightarrow> opt_member v k = JUndefined"
  by (cases v) simp_all

lemma opt_get_fields: "opt_get st q k = lookup (fields_of st q) k"
proof (cases q)
  case (Val v)
  then show ?thesis by (cases v) simp_all
qed simp

lemma get_fields:
  assumes "q \<noteq> Val JUndefined" "q \<noteq> Val JNull"
  shows "get st q k = Inr (lookup (fields_of st q) k)"
proof (cases q)
  case (Val v)
  with assms show ?thesis by (cases v) simp_all
qed simp

lemma default_props_id:
  assumes "q \<noteq> Val JUndefined"
  shows "default_props q = q"
proof (cases q)
  case (Val v)
  with assms show ?thesis by (cases v) simp_all
qed simp

text \<open>
  The expressions of \<^verbatim>\<open>restructureProps\<close> and of the thunk, as functions of the
  description they read.
\<close>

lemma isAudioMuted_get:
  "get st q ''description'' = Inr d \<Longrightarrow> q \<noteq> Val JUndefined \<Longrightarrow> isAudioMuted st q = Inr (micMuted_of d)"
  by (simp add: isAudioMuted_def deviceMessageType_def default_props_id bind_simps micMuted_of_def)

lemma isEndStream_get:
  "get st q ''description'' = Inr d \<Longrightarrow>
   isEndStream_value st q = Inr (JBool (opt_member d ''deviceMessageType'' = JStr ''CONSULTATION_ENDED''))"
  by (simp add: isEndStream_value_def deviceMessageType_def bind_simps)

lemma messageId_get:
  "get st q ''description'' = Inr d \<Longrightarrow>
   messageId_value st q = (if nullish d then Inl TypeError else Inr (messageId_of d))"
  by (simp add: messageId_value_def bind_simps messageId_of_def member_Inr member_Inl)

lemma title_get:
  "get st q ''description'' = Inr d \<Longrightarrow> \<not> nullish d \<Longrightarrow> opt_get st q ''description'' = d \<Longrightarrow>
   title_value st q = Inr (title_of d)"
  by (simp add: title_value_def bind_simps title_of_def member_Inr)

lemma shouldDisplay_get:
  "get st q ''description'' = Inr d \<Longrightarrow>
   shouldDisplay app st q =
     (if truthy (enabledFlag app) \<and> nullish d then Inl TypeError
      else Inr (eligible app d (fields_of st q)))"
  by (cases "truthy (enabledFlag app)"; cases "nullish d")
     (simp_all add: shouldDisplay_def bind_simps eligible_def member_Inr member_Inl allowListed_def
        opt_get_fields opt_member_nullish split: option.split)

lemma dmt_not_nullish: "opt_member d k = JStr s \<Longrightarrow> \<not> nullish d"
  by (cases d) simp_all

lemma descriptionText_get:
  "get st q ''description'' = Inr d \<Longrightarrow> descriptionText st q = Inr (display_text d)"
  by (auto simp add: descriptionText_def bind_simps display_text_def member_Inr dest: dmt_not_nullish)

text \<open>\<^verbatim>\<open>restructureProps\<close> on an object, held by reference or by value.\<close>

lemma is_object_cases:
  assumes "is_object q"
  obtains (Ref) r where "q = Ref r" | (Obj) fs where "q = Val (JObj fs)"
proof (cases q)
  case (Val v)
  with assms that show ?thesis by (cases v) simp_all
next
  case (Ref r)
  with that show ?thesis by simp
qed

lemma restructureProps_object:
  assumes "is_object q"
  shows "restructureProps env st q =
     (let d0 = lookup (fields_of st q) ''description'' in
      if \<not> truthy d0 then (st, Inr q)
      else case JSON_parse env d0 of
             None \<Rightarrow> (st, Inl SyntaxError)
           | Some p \<Rightarrow> if nullish p then (fst (with_fields st q (put ''description'' p (fields_of st q))), Inl TypeError)
                       else (fst (with_fields st q (restructured p (fields_of st q))),
                             Inr (snd (with_fields st q (restructured p (fields_of st q))))))"
  using assms
proof (cases q rule: is_object_cases)
  case (Ref r)
  show ?thesis
  proof (cases "truthy (lookup (st r) ''description'')")
    case False
    with Ref show ?thesis
      by (simp add: restructureProps_def bind_simps cong: bindS_weak_cong)
  next
    case True
    show ?thesis
    proof (cases "JSON_parse env (lookup (st r) ''description'')")
      case None
      with Ref True show ?thesis
        by (simp add: restructureProps_def bind_simps parseE_def cong: bindS_weak_cong)
    next
      case (Some p)
      show ?thesis
      proof (cases "nullish p")
        case n: True
        with Ref True Some show ?thesis
          by (simp add: restructureProps_def bind_simps parseE_def messageId_get lookup_put cong: bindS_weak_cong)
      next
        case n: False
        with Ref True Some show ?thesis
          by (simp add: restructureProps_def bind_simps parseE_def messageId_get title_get
             isEndStream_get isAudioMuted_get lookup_put restructured_def cong: bindS_weak_cong)
      qed
    qed
  qed
next
  case (Obj fs)
  show ?thesis
  proof (cases "truthy (lookup fs ''description'')")
    case False
    with Obj show ?thesis
      by (simp add: restructureProps_def bind_simps cong: bindS_weak_cong)
  next
    case True
    show ?thesis
    proof (cases "JSON_parse env (lookup fs ''description'')")
      case None
      with Obj True show ?thesis
        by (simp add: restructureProps_def bind_simps parseE_def cong: bindS_weak_cong)
    next
      case (Some p)
      show ?thesis
      proof (cases "nullish p")
        case n: True
        with Obj True Some show ?thesis
          by (simp add: restructureProps_def bind_simps parseE_def messageId_get lookup_put cong: bindS_weak_cong)
      next
        case n: False
        with Obj True Some show ?thesis
          by (simp add: restructureProps_def bind_simps parseE_def messageId_get title_get
             isEndStream_get isAudioMuted_get lookup_put restructured_def cong: bindS_weak_cong)
      qed
    qed
  qed
qed

lemma is_object_not_nullish: "is_object q \<Longrightarrow> q \<noteq> Val JUndefined \<and> q \<noteq> Val JNull"
  by (auto elim: is_object_cases)

lemma get_object: "is_object q \<Longrightarrow> get st q k = Inr (lookup (fields_of st q) k)"
  by (simp add: get_fields is_object_not_nullish)

lemma default_props_object: "is_object q \<Longrightarrow> default_props q = q"
  by (simp add: default_props_id is_object_not_nullish)

lemma truthy_object: "is_object q \<Longrightarrow> truthy_payload q"
  by (auto elim: is_object_cases)

lemma assignS_object:
  "is_object q \<Longrightarrow>
   assignS st q k x = (fst (with_fields st q (put k x (fields_of st q))),
                       Inr (snd (with_fields st q (put k x (fields_of st q)))))"
  by (auto elim!: is_object_cases simp add: bind_simps)

lemma fields_with_fields:
  "is_object q \<Longrightarrow> fields_of (fst (with_fields st q fs)) (snd (with_fields st q fs)) = fs"
  by (auto elim!: is_object_cases)

lemma is_object_with_fields: "is_object q \<Longrightarrow> is_object (snd (with_fields st q fs))"
  by (auto elim!: is_object_cases)

lemma with_fields_twice:
  "is_object q \<Longrightarrow>
   with_fields (fst (with_fields st q fs)) (snd (with_fields st q fs)) fs' = with_fields st q fs'"
  by (auto elim!: is_object_cases)

lemma with_fields_same: "is_object q \<Longrightarrow> with_fields st q (fields_of st q) = (st, q)"
  by (auto elim!: is_object_cases)

lemma isAudioMuted_object:
  "is_object q \<Longrightarrow> isAudioMuted st q = Inr (micMuted_of (lookup (fields_of st q) ''description''))"
  by (simp add: isAudioMuted_get get_object is_object_not_nullish)

lemma shouldDisplay_object:
  "is_object q \<Longrightarrow>
   shouldDisplay app st q =
     (if truthy (enabledFlag app) \<and> nullish (lookup (fields_of st q) ''description'') then Inl TypeError
      else Inr (eligible app (lookup (fields_of st q) ''description'') (fields_of st q)))"
  by (simp add: shouldDisplay_get get_object)

lemma descriptionText_object:
  "is_object q \<Longrightarrow> descriptionText st q = Inr (display_text (lookup (fields_of st q) ''description''))"
  by (simp add: descriptionText_get get_object)

lemma uid_value_object: "uid_value env st q = uid_of env (fields_of st q)"
  by (simp add: uid_value_def uid_of_def opt_get_fields)

lemma uid_of_put: "k \<noteq> ''uid'' \<Longrightarrow> uid_of env (put k x fs) = uid_of env fs"
  by (simp add: uid_of_def lookup_put)

lemma restructured_description: "lookup (restructured p fs) ''description'' = p"
  by (simp add: restructured_def lookup_put)

lemmas object_simps = get_object default_props_object truthy_object assignS_object fields_with_fields
  is_object_with_fields with_fields_twice with_fields_same isAudioMuted_object shouldDisplay_object
  descriptionText_object uid_value_object uid_of_put restructured_description

text \<open>
  The thunk after \<^verbatim>\<open>restructureProps\<close> has returned, then the whole thunk: on an
  object it is \<open>show_fields\<close> on the fields of the object.
\<close>

lemma showNotification_rest:
  assumes "is_object q"
  shows "bindS (st, Inr q) (\<lambda>st1 props.
     bindS (st1, isAudioMuted st1 props) (\<lambda>st1 isMicMuted.
     if \<not> truthy_payload props then (st1, Inr None) else
     bindS (st1, shouldDisplay app st1 props) (\<lambda>st1 display.
     if \<not> display then (st1, Inr None) else
     bindS (st1, descriptionText st1 props) (\<lambda>st1 text.
     bindS (assignS st1 props ''description'' text) (\<lambda>st2 props2.
     (st2, Inr (Some \<lparr> action_props = props2,
                       action_timeout = (if isMicMuted \<noteq> JNull
                                         then NOTIFICATION_TIMEOUT_INSTANT cs
                                         else NOTIFICATION_TIMEOUT_LONG cs),
                       action_uid = uid_value env st2 props2 \<rparr>)))))))
   = lift_result st q (finish cs env app (fields_of st q) (lookup (fields_of st q) ''description''))"
proof (cases "truthy (enabledFlag app) \<and> nullish (lookup (fields_of st q) ''description'')")
  case True
  with assms show ?thesis
    by (simp add: bind_simps object_simps finish_def lift_result_def cong: bindS_weak_cong)
next
  case False
  show ?thesis
  proof (cases "eligible app (lookup (fields_of st q) ''description'') (fields_of st q)")
    case e: True
    with assms False show ?thesis
      by (simp add: bind_simps object_simps finish_def lift_result_def timeout_of_def cong: bindS_weak_cong)
  next
    case e: False
    with assms False show ?thesis
      by (simp add: bind_simps object_simps finish_def lift_result_def cong: bindS_weak_cong)
  qed
qed

lemma lift_result_with_fields:
  "is_object q \<Longrightarrow>
   lift_result (fst (with_fields st q fs)) (snd (with_fields st q fs)) r = lift_result st q r"
  by (simp add: lift_result_def with_fields_twice)

lemma lift_result_Inl: "lift_result st q (fs, Inl e) = (fst (with_fields st q fs), Inl e)"
  by (simp add: lift_result_def)

lemma showNotification_object:
  assumes "is_object q"
  shows "showNotification cs env app st q ty = lift_result st q (show_fields cs env app (fields_of st q))"
proof (cases "truthy (lookup (fields_of st q) ''description'')")
  case False
  with assms show ?thesis
    unfolding showNotification_def
    by (simp add: default_props_object restructureProps_object show_fields_def showNotification_rest
          cong: bindS_weak_cong)
next
  case True
  show ?thesis
  proof (cases "JSON_parse env (lookup (fields_of st q) ''description'')")
    case None
    with assms True show ?thesis
      unfolding showNotification_def
      by (simp add: default_props_object restructureProps_object show_fields_def bind_simps
            lift_result_Inl with_fields_same cong: bindS_weak_cong)
  next
    case (Some p)
    show ?thesis
    proof (cases "nullish p")
      case n: True
      with assms True Some show ?thesis
        unfolding showNotification_def
        by (simp add: default_props_object restructureProps_object show_fields_def bind_simps
              lift_result_Inl cong: bindS_weak_cong)
    next
      case n: False
      with assms True Some show ?thesis
        unfolding showNotification_def
        by (simp add: default_props_object restructureProps_object show_fields_def
              showNotification_rest is_object_with_fields fields_with_fields
              restructured_description lift_result_with_fields cong: bindS_weak_cong)
    qed
  qed
qed

text \<open>
  A payload that is no object is never displayed: \<^verbatim>\<open>null\<close> throws, a falsy primitive
  returns at the test \<^verbatim>\<open>if (!props) return\<close>, a truthy primitive has no description.
  An omitted payload is the empty object.
\<close>

lemma showNotification_primitive:
  assumes "\<not> is_object q" "q \<noteq> Val JUndefined"
  shows "showNotification cs env app st q ty =
           (st, if q = Val JNull then Inl TypeError
                else if \<not> truthy_payload q then Inr None
                else if truthy (enabledFlag app) then Inl TypeError else Inr None)"
proof (cases q)
  case (Val v)
  with assms show ?thesis
    by (cases v; cases "truthy (enabledFlag app)")
       (simp_all add: show_defs bind_simps cong: bindS_weak_cong bindE_weak_cong)
next
  case (Ref r)
  with assms show ?thesis by simp
qed

lemma showNotification_default:
  "showNotification cs env app st (Val JUndefined) ty = showNotification cs env app st (Val (JObj [])) ty"
  by (simp add: showNotification_def)

lemma emitted_object:
  assumes "snd (showNotification cs env app st props ty) = Inr (Some a)"
  shows "is_object (default_props props)"
proof (rule ccontr)
  assume n: "\<not> is_object (default_props props)"
  then have u: "props \<noteq> Val JUndefined" by auto
  then have "default_props props = props" by (rule default_props_id)
  with n have "\<not> is_object props" by simp
  from showNotification_primitive[OF this u] assms show False
    by (simp split: if_splits)
qed

text \<open>What a dispatched action tells about the run that dispatched it.\<close>

lemma show_fields_emitted:
  assumes "snd (show_fields cs env app fs) = Inr (Some tu)"
  shows "\<exists>d fs1. (d = lookup fs ''description'' \<and> \<not> truthy d \<and> fs1 = fs
                  \<or> truthy (lookup fs ''description'') \<and> JSON_parse env (lookup fs ''description'') = Some d
                     \<and> \<not> nullish d \<and> fs1 = restructured d fs)
               \<and> eligible app d fs1
               \<and> show_fields cs env app fs =
                   (put ''description'' (display_text d) fs1, Inr (Some (timeout_of cs d, uid_of env fs)))"
  using assms
  by (auto simp add: show_fields_def finish_def Let_def restructured_def uid_of_put
           split: if_splits option.splits)

lemma fields_default: "fields_of st (default_props props) = fields_of st props"
proof (cases props)
  case (Val v)
  then show ?thesis by (cases v) simp_all
qed simp

lemma showNotification_default_props:
  "showNotification cs env app st props ty = showNotification cs env app st (default_props props) ty"
proof (cases "props = Val JUndefined")
  case True
  then show ?thesis by (simp add: showNotification_default)
next
  case False
  then show ?thesis by (simp add: default_props_id)
qed

lemma emitted_characterisation:
  assumes "snd (showNotification cs env app st props ty) = Inr (Some a)"
  shows "action_timeout a = timeout_of cs (parsed_description env st props)"
    and "action_uid a = uid_of env (fields_of st props)"
    and "opt_get (fst (showNotification cs env app st props ty)) (action_props a) ''description''
           = display_text (parsed_description env st props)"
proof -
  define q where "q = default_props props"
  have obj: "is_object q"
    unfolding q_def using assms by (rule emitted_object)
  have run: "showNotification cs env app st props ty
               = lift_result st q (show_fields cs env app (fields_of st q))"
    unfolding q_def
    using showNotification_default_props showNotification_object obj[unfolded q_def] by metis
  from assms obtain tu where
    tu: "snd (show_fields cs env app (fields_of st q)) = Inr (Some tu)"
    and a: "a = \<lparr> action_props = snd (with_fields st q (fst (show_fields cs env app (fields_of st q)))),
                  action_timeout = fst tu, action_uid = snd tu \<rparr>"
    unfolding run lift_result_def
    by (cases "snd (show_fields cs env app (fields_of st q))") auto
  from show_fields_emitted[OF tu] obtain d fs1 where
    d: "d = lookup (fields_of st q) ''description'' \<and> \<not> truthy d
        \<or> truthy (lookup (fields_of st q) ''description'')
          \<and> JSON_parse env (lookup (fields_of st q) ''description'') = Some d"
    and sf: "show_fields cs env app (fields_of st q) =
               (put ''description'' (display_text d) fs1,
                Inr (Some (timeout_of cs d, uid_of env (fields_of st q))))"
    by blast
  have pd: "parsed_description env st props = d"
    using d by (auto simp add: parsed_description_def opt_get_fields q_def fields_default)
  from sf tu have tu_eq: "tu = (timeout_of cs d, uid_of env (fields_of st q))" by simp
  show "action_timeout a = timeout_of cs (parsed_description env st props)"
    using a tu_eq pd by simp
  show "action_uid a = uid_of env (fields_of st props)"
    using a tu_eq by (simp add: q_def fields_default)
  show "opt_get (fst (showNotification cs env app st props ty)) (action_props a) ''description''
           = display_text (parsed_description env st props)"
    unfolding run using a sf pd obj
    by (simp add: lift_result_def opt_get_fields fields_with_fields lookup_put)
qed


section \<open>Payloads without a description\<close>

text \<open>
  An object payload whose description is missing (or \<^verbatim>\<open>null\<close>) makes the thunk throw
  when the feature flag is set: \<^verbatim>\<open>props.description.handledAt\<close> reads a property of
  \<^verbatim>\<open>undefined\<close>. Nothing is dispatched and the store is as before.
\<close>

lemma showNotification_throws_without_description:
  assumes "is_object (default_props props)"
      and "nullish (opt_get st props ''description'')"
      and "truthy (enabledFlag app)"
  shows "showNotification cs env app st props ty = (st, Inl TypeError)"
proof -
  have n: "nullish (lookup (fields_of st (default_props props)) ''description'')"
    using assms(2) by (simp add: opt_get_fields fields_default)
  then have f: "\<not> truthy (lookup (fields_of st (default_props props)) ''description'')"
    by (cases "lookup (fields_of st (default_props props)) ''description''") simp_all
  have "showNotification cs env app st props ty
          = lift_result st (default_props props)
              (show_fields cs env app (fields_of st (default_props props)))"
    using showNotification_default_props showNotification_object[OF assms(1)] by metis
  with n f assms show ?thesis
    by (simp add: show_fields_def finish_def lift_result_def with_fields_same)
qed

text \<open>The templates of the two flushes, and the flush of a large meeting.\<close>

lemma joinedNotificationProps_templates:
  "joinedNotificationProps [] = None"
  "joinedNotificationProps [a] =
     Some (JObj [(''titleArguments'', JObj [(''name'', JStr a)]),
                 (''titleKey'', JStr ''notify.connectedOneMember'')])"
  "joinedNotificationProps [a, b] =
     Some (JObj [(''titleArguments'', JObj [(''first'', JStr a), (''second'', JStr b)]),
                 (''titleKey'', JStr ''notify.connectedTwoMembers'')])"
  "joinedNotificationProps (a # b # c # names) =
     Some (JObj [(''titleArguments'', JObj [(''name'', JStr a)]),
                 (''titleKey'', JStr ''notify.connectedThreePlusMembers'')])"
  by (simp_all add: joinedNotificationProps_def)

lemma leftNotificationProps_templates:
  "leftNotificationProps [] = None"
  "leftNotificationProps [a] =
     Some (JObj [(''titleArguments'', JObj [(''name'', JStr a)]),
                 (''titleKey'', JStr ''notify.leftOneMember'')])"
  "leftNotificationProps [a, b] =
     Some (JObj [(''titleArguments'', JObj [(''first'', JStr a), (''second'', JStr b)]),
                 (''titleKey'', JStr ''notify.leftTwoMembers'')])"
  "leftNotificationProps (a # b # c # names) =
     Some (JObj [(''titleArguments'', JObj [(''name'', JStr a)]),
                 (''titleKey'', JStr ''notify.leftThreePlusMembers'')])"
  by (simp_all add: leftNotificationProps_def)

lemma flush_silent:
  assumes "participantCount app > threshold \<or> template names = None"
  shows "flush template threshold cs env app st names
           = \<lparr> store_after = st, names_after = [], outcome = Inr None \<rparr>"
  using assms by (auto simp add: flush_def)

lemma flush_joined_throws:
  assumes "participantCount app \<le> SILENT_JOIN_THRESHOLD cs"
      and "names \<noteq> []"
      and "truthy (enabledFlag app)"
  shows "throttledNotifyParticipantConnected cs env app st names
           = \<lparr> store_after = st, names_after = names, outcome = Inl TypeError \<rparr>"
proof -
  have "\<exists>fs. joinedNotificationProps names = Some (JObj fs)
              \<and> lookup fs ''description'' = JUndefined"
    using assms(2) by (cases names) (simp_all add: joinedNotificationProps_def)
  then obtain fs where t: "joinedNotificationProps names = Some (JObj fs)"
    and d: "lookup fs ''description'' = JUndefined"
    by blast
  have "showNotification cs env app st (Val (JObj fs)) (NOTIFICATION_TIMEOUT_TYPE_SHORT cs)
          = (st, Inl TypeError)"
    using d assms(3) by (intro showNotification_throws_without_description) simp_all
  with t assms(1) show ?thesis
    by (simp add: throttledNotifyParticipantConnected_def flush_def)
qed

lemma flush_left_throws:
  assumes "participantCount app \<le> SILENT_LEFT_THRESHOLD cs"
      and "names \<noteq> []"
      and "truthy (enabledFlag app)"
  shows "throttledNotifyParticipantLeft cs env app st names
           = \<lparr> store_after = st, names_after = names, outcome = Inl TypeError \<rparr>"
proof -
  have "\<exists>fs. leftNotificationProps names = Some (JObj fs)
              \<and> lookup fs ''description'' = JUndefined"
    using assms(2) by (cases names) (simp_all add: leftNotificationProps_def)
  then obtain fs where t: "leftNotificationProps names = Some (JObj fs)"
    and d: "lookup fs ''description'' = JUndefined"
    by blast
  have "showNotification cs env app st (Val (JObj fs)) (NOTIFICATION_TIMEOUT_TYPE_SHORT cs)
          = (st, Inl TypeError)"
    using d assms(3) by (intro showNotification_throws_without_description) simp_all
  with t assms(1) show ?thesis
    by (simp add: throttledNotifyParticipantLeft_def flush_def)
qed

section \<open>A raised hand and the feature flag\<close>

text \<open>
  The third disjunct of the eligibility expression stands alone: a description that
  parses to an object with \<^verbatim>\<open>isRaisedHand === true\<close> is displayed whatever the feature
  flag is.
\<close>

lemma opt_member_not_nullish: "opt_member d k \<noteq> JUndefined \<Longrightarrow> \<not> nullish d"
  by (cases d) simp_all

lemma showNotification_raised_hand_whatever_the_flag:
  assumes "is_object q"
      and "truthy (lookup (fields_of st q) ''description'')"
      and "JSON_parse env (lookup (fields_of st q) ''description'') = Some p"
      and "opt_member p ''isRaisedHand'' = JBool True"
  shows "\<exists>a. snd (showNotification cs env app st q ty) = Inr (Some a)"
proof -
  have n: "\<not> nullish p"
    using assms(4) by (intro opt_member_not_nullish[of p "''isRaisedHand''"]) simp
  have e: "eligible app p (restructured p (fields_of st q))"
    using assms(4) by (simp add: eligible_def)
  show ?thesis
    using assms(1-3) n e
    by (simp add: showNotification_object show_fields_def finish_def lift_result_def)
qed

section \<open>A snapshot without props\<close>

lemma hideNotification_without_props_throws:
  assumes "truthy n" and "member n ''props'' = Inr p" and "nullish p"
  shows "hideNotification app uid n = Inl TypeError"
  using assms by (auto simp add: hideNotification_def bind_simps member_Inl)

section \<open>The invariant of the timer registry\<close>

text \<open>
  \<^verbatim>\<open>createTimeoutId\<close> by itself: with a truthy timeout it arms one more timer and
  records its handle under the uid; it cancels nothing, so that the timer a uid already
  has must be cancelled by the caller.
\<close>

lemma createTimeoutId_effect:
  "(truthy (action_timeout n) \<longrightarrow>
      armed (createTimeoutId n ts) = armed ts @ [(next_handle ts, action_uid n, action_timeout n)]
      \<and> timers (createTimeoutId n ts) = (timers ts)(action_uid n \<mapsto> next_handle ts)
      \<and> next_handle (createTimeoutId n ts) = Suc (next_handle ts))
   \<and> (\<not> truthy (action_timeout n) \<longrightarrow> createTimeoutId n ts = ts)"
  by (simp add: createTimeoutId_def Let_def)

lemma createTimeoutId_does_not_cancel:
  "armed_for (JStr ''n1'') (createTimeoutId sample_action (createTimeoutId sample_action initial_timers))
      = [0, 1]"
  by (simp add: createTimeoutId_def sample_action_def initial_timers_def armed_for_def Let_def)

















section \<open>Claims\<close>

text \<open>
  C1. The claim: an action is dispatched only if the feature flag is set; with the flag
  unset nothing is dispatched, whatever the payload says. The code dispatches with the
  flag unset: in the eligibility expression \<^verbatim>\<open>&&\<close> binds tighter than \<^verbatim>\<open>||\<close>, so the
  flag guards only the first disjunct, and a raised hand is displayed by the third.
  Here the flag is \<^verbatim>\<open>false\<close> and the description is \<^verbatim>\<open>{"isRaisedHand":true}\<close>.
\<close>

theorem showNotification_flag_unset_raised_hand:
  \<open>\<not> truthy (enabledFlag (sample_state (JBool False)))
   \<and> showNotification sample_constants sample_env (sample_state (JBool False)) empty_store
        (Val (JObj [(''description'', JStr ''{"isRaisedHand":true}'')])) JUndefined
      = (empty_store,
         Inr (Some \<lparr> action_props =
                        Val (JObj [(''description'', JStr ''Raised a Hand''),
                                   (''messageId'', JStr ''raisAHand''),
                                   (''title'', JStr ''ViCE''),
                                   (''isEndStream'', JBool False),
                                   (''isMicMuted'', JNull)]),
                      action_timeout = JNum 10000,
                      action_uid = JStr ''1700000000000'' \<rparr>))\<close>
  by (simp add: show_defs bind_simps sample_defs cong: bindS_weak_cong bindE_weak_cong)

text \<open>
  C2. Whenever \<^verbatim>\<open>showNotification\<close> dispatches an action, the uid of the action is the
  uid of the payload when the payload has one (a truthy one, as \<^verbatim>\<open>props.uid || ...\<close>
  reads it) and otherwise the decimal text of the current time; and the timeout is
  INSTANT when the \<^verbatim>\<open>deviceMessageType\<close> of the parsed description is
  \<^verbatim>\<open>PAUSE_SESSION\<close> or \<^verbatim>\<open>RESUME_SESSION\<close>, and LONG in every other case.
\<close>

theorem showNotification_uid_and_timeout:
  assumes "snd (showNotification cs env app st props ty) = Inr (Some a)"
  shows "action_uid a = (if truthy (opt_get st props ''uid'') then opt_get st props ''uid''
                         else JStr (toString (Date_now env)))
       \<and> action_timeout a =
           (if description_type env st props = JStr ''PAUSE_SESSION''
             \<or> description_type env st props = JStr ''RESUME_SESSION''
            then NOTIFICATION_TIMEOUT_INSTANT cs else NOTIFICATION_TIMEOUT_LONG cs)"
  using emitted_characterisation(1,2)[OF assms]
  by (simp add: uid_of_def opt_get_fields timeout_of_def micMuted_of_def description_type_def)

theorem showNotification_uid_and_timeout_witness:
  "snd (showNotification sample_constants sample_env (sample_state (JBool True)) sample_store
          (Ref 0) JUndefined)
     = Inr (Some \<lparr> action_props = Ref 0, action_timeout = JNum 1, action_uid = JStr ''n1'' \<rparr>)
   \<and> opt_get sample_store (Ref 0) ''uid'' = JStr ''n1''
   \<and> description_type sample_env sample_store (Ref 0) = JStr ''PAUSE_SESSION''
   \<and> NOTIFICATION_TIMEOUT_INSTANT sample_constants = JNum 1"
proof -
  have h: "snd (showNotification sample_constants sample_env (sample_state (JBool True))
                  sample_store (Ref 0) JUndefined)
             = Inr (Some \<lparr> action_props = Ref 0, action_timeout = JNum 1,
                            action_uid = JStr ''n1'' \<rparr>)"
    by (simp add: show_defs bind_simps sample_defs cong: bindS_weak_cong bindE_weak_cong)
  from showNotification_uid_and_timeout[OF h] h show ?thesis
    by (simp add: description_type_def parsed_description_def sample_defs)
qed

text \<open>
  C3. A run of \<^verbatim>\<open>hideNotification\<close> with a snapshot whose \<^verbatim>\<open>props\<close> is an object:
  when \<^verbatim>\<open>isMicMuted\<close> is neither \<^verbatim>\<open>null\<close> nor \<^verbatim>\<open>undefined\<close>, the mute command for
  the local AUDIO device is dispatched first and the hide action after it; when
  \<^verbatim>\<open>isEndStream\<close> is truthy, the navigation is dispatched once, by the callback of the
  promise made from the dispatch of the hide action, hence after that dispatch has
  returned, and otherwise not at all. Without a snapshot the hide action, with the uid
  and the conference of the state, is all that is dispatched.
\<close>

theorem hideNotification_effects:
  "(truthy n \<longrightarrow> member n ''props'' = Inr p \<longrightarrow> \<not> nullish p \<longrightarrow>
      hideNotification app uid n =
        Inr \<lparr> now = (if nullish (opt_member p ''isMicMuted'') then []
                      else [MUTE_LOCAL (opt_member p ''isMicMuted'') AUDIO])
                     @ [HIDE_NOTIFICATION uid (conference app)],
               later = (if truthy (opt_member p ''isEndStream'')
                        then [APP_NAVIGATE JUndefined] else []) \<rparr>)
   \<and> (\<not> truthy n \<longrightarrow>
      hideNotification app uid n =
        Inr \<lparr> now = [HIDE_NOTIFICATION uid (conference app)], later = [] \<rparr>)"
proof (intro conjI impI)
  assume "truthy n" "member n ''props'' = Inr p" "\<not> nullish p"
  then show "hideNotification app uid n =
        Inr \<lparr> now = (if nullish (opt_member p ''isMicMuted'') then []
                      else [MUTE_LOCAL (opt_member p ''isMicMuted'') AUDIO])
                     @ [HIDE_NOTIFICATION uid (conference app)],
               later = (if truthy (opt_member p ''isEndStream'')
                        then [APP_NAVIGATE JUndefined] else []) \<rparr>"
    by (auto simp add: hideNotification_def bind_simps member_Inr Let_def)
next
  assume "\<not> truthy n"
  then show "hideNotification app uid n =
        Inr \<lparr> now = [HIDE_NOTIFICATION uid (conference app)], later = [] \<rparr>"
    by (auto simp add: hideNotification_def)
qed

theorem hideNotification_effects_witness:
  "hideNotification (sample_state (JBool True)) (JStr ''n1'')
     (JObj [(''props'', JObj [(''isMicMuted'', JBool True), (''isEndStream'', JBool True)])])
     = Inr \<lparr> now = [MUTE_LOCAL (JBool True) AUDIO, HIDE_NOTIFICATION (JStr ''n1'') (JStr ''room'')],
              later = [APP_NAVIGATE JUndefined] \<rparr>
   \<and> hideNotification (sample_state (JBool True)) (JStr ''n1'') JUndefined
     = Inr \<lparr> now = [HIDE_NOTIFICATION (JStr ''n1'') (JStr ''room'')], later = [] \<rparr>"
  using hideNotification_effects[of "JObj [(''props'', JObj [(''isMicMuted'', JBool True), (''isEndStream'', JBool True)])]"
          "JObj [(''isMicMuted'', JBool True), (''isEndStream'', JBool True)]"
          "sample_state (JBool True)" "JStr ''n1''"]
        hideNotification_effects[of JUndefined JUndefined "sample_state (JBool True)" "JStr ''n1''"]
  by (simp add: sample_state_def)

text \<open>
  C4. The claim: a flush below the silence threshold with one name collected shows the
  one-member notification, and after every flush the list of names is empty. With the
  feature flag set the code does neither: the payload of the flush has no description,
  \<^verbatim>\<open>showNotification\<close> throws, and the statement that empties the list is not reached.
  Here one participant, Ann, has joined a meeting of two.
\<close>

theorem flush_throws_and_keeps_names:
  "participantCount (sample_state (JBool True)) \<le> SILENT_JOIN_THRESHOLD sample_constants
   \<and> outcome (throttledNotifyParticipantConnected sample_constants sample_env
                (sample_state (JBool True)) empty_store [''Ann'']) = Inl TypeError
   \<and> names_after (throttledNotifyParticipantConnected sample_constants sample_env
                (sample_state (JBool True)) empty_store [''Ann'']) = [''Ann'']"
  by (simp add: throttledNotifyParticipantConnected_def flush_def joinedNotificationProps_def
        show_defs bind_simps sample_defs cong: bindS_weak_cong bindE_weak_cong)

text \<open>
  C5, as the code has it. \<^verbatim>\<open>getNotificationTimeout\<close> resolves SHORT, MEDIUM and LONG
  to the configured override when there is one (not \<^verbatim>\<open>null\<close>, not \<^verbatim>\<open>undefined\<close>) and
  to the built-in value otherwise, and every other type to STICKY.
  \<^verbatim>\<open>showNotification\<close> does not call it: the run is the same for every type and every
  configured override, and the timeout of a dispatched action is INSTANT or LONG.
\<close>

theorem getNotificationTimeout_resolves:
  "getNotificationTimeout cs (NOTIFICATION_TIMEOUT_TYPE_SHORT cs) nts =
     (if nullish (opt_member nts ''short'') then NOTIFICATION_TIMEOUT_SHORT cs
      else opt_member nts ''short'')
   \<and> (NOTIFICATION_TIMEOUT_TYPE_MEDIUM cs \<noteq> NOTIFICATION_TIMEOUT_TYPE_SHORT cs \<longrightarrow>
       getNotificationTimeout cs (NOTIFICATION_TIMEOUT_TYPE_MEDIUM cs) nts =
         (if nullish (opt_member nts ''medium'') then NOTIFICATION_TIMEOUT_MEDIUM cs
          else opt_member nts ''medium''))
   \<and> (NOTIFICATION_TIMEOUT_TYPE_LONG cs \<noteq> NOTIFICATION_TIMEOUT_TYPE_SHORT cs \<longrightarrow>
       NOTIFICATION_TIMEOUT_TYPE_LONG cs \<noteq> NOTIFICATION_TIMEOUT_TYPE_MEDIUM cs \<longrightarrow>
       getNotificationTimeout cs (NOTIFICATION_TIMEOUT_TYPE_LONG cs) nts =
         (if nullish (opt_member nts ''long'') then NOTIFICATION_TIMEOUT_LONG cs
          else opt_member nts ''long''))
   \<and> (ty \<noteq> NOTIFICATION_TIMEOUT_TYPE_SHORT cs \<longrightarrow> ty \<noteq> NOTIFICATION_TIMEOUT_TYPE_MEDIUM cs \<longrightarrow>
       ty \<noteq> NOTIFICATION_TIMEOUT_TYPE_LONG cs \<longrightarrow>
       getNotificationTimeout cs ty nts = NOTIFICATION_TIMEOUT_STICKY cs)
   \<and> showNotification cs env (app \<lparr> notificationTimeouts := nts \<rparr>) st props ty'
       = showNotification cs env app st props ty
   \<and> (snd (showNotification cs env app st props ty) = Inr (Some a) \<longrightarrow>
       action_timeout a = NOTIFICATION_TIMEOUT_INSTANT cs
       \<or> action_timeout a = NOTIFICATION_TIMEOUT_LONG cs)"
proof -
  have sd: "\<And>st1 q. shouldDisplay (app \<lparr> notificationTimeouts := nts \<rparr>) st1 q = shouldDisplay app st1 q"
    by (simp add: shouldDisplay_def allowListed_def)
  have ignore: "showNotification cs env (app \<lparr> notificationTimeouts := nts \<rparr>) st props ty'
       = showNotification cs env app st props ty"
    unfolding showNotification_def sd ..
  have two: "snd (showNotification cs env app st props ty) = Inr (Some a) \<longrightarrow>
       action_timeout a = NOTIFICATION_TIMEOUT_INSTANT cs
       \<or> action_timeout a = NOTIFICATION_TIMEOUT_LONG cs"
    using emitted_characterisation(1)[of cs env app st props ty a]
    by (simp add: timeout_of_def)
  show ?thesis
    using ignore two by (simp add: getNotificationTimeout_def coalesce_def)
qed

theorem getNotificationTimeout_resolves_witness:
  "getNotificationTimeout sample_constants (JStr ''short'') (JObj [(''short'', JNum 1234)]) = JNum 1234
   \<and> getNotificationTimeout sample_constants (JStr ''medium'') (JObj [(''short'', JNum 1234)]) = JNum 5000
   \<and> getNotificationTimeout sample_constants (JStr ''long'') (JObj [(''short'', JNum 1234)]) = JNum 10000
   \<and> getNotificationTimeout sample_constants (JStr ''sticky'') (JObj [(''short'', JNum 1234)]) = JBool False
   \<and> snd (showNotification sample_constants sample_env (sample_state (JBool True)) sample_store
            (Ref 0) (JStr ''sticky''))
      = Inr (Some \<lparr> action_props = Ref 0, action_timeout = JNum 1, action_uid = JStr ''n1'' \<rparr>)
   \<and> NOTIFICATION_TIMEOUT_INSTANT sample_constants = JNum 1"
proof -
  have h: "snd (showNotification sample_constants sample_env (sample_state (JBool True)) sample_store
            (Ref 0) (JStr ''sticky''))
      = Inr (Some \<lparr> action_props = Ref 0, action_timeout = JNum 1, action_uid = JStr ''n1'' \<rparr>)"
    by (simp add: show_defs bind_simps sample_defs cong: bindS_weak_cong bindE_weak_cong)
  from getNotificationTimeout_resolves[where cs = sample_constants
         and nts = "JObj [(''short'', JNum 1234)]" and ty = "JStr ''sticky''"
         and env = sample_env and app = "sample_state (JBool True)" and st = sample_store
         and props = "Ref 0"
         and a = "\<lparr> action_props = Ref 0, action_timeout = JNum 1, action_uid = JStr ''n1'' \<rparr>"]
       h
  show ?thesis
    by (simp add: sample_constants_def)
qed

text \<open>
  C5, as the claim has it, fails: with the short timeout configured as 1234 ms, a call
  of type SHORT dispatches the timeout LONG of 10000 ms.
\<close>

theorem showNotification_ignores_short_override:
  "NOTIFICATION_TIMEOUT_TYPE_SHORT sample_constants = JStr ''short''
   \<and> getNotificationTimeout sample_constants (JStr ''short'') (JObj [(''short'', JNum 1234)]) = JNum 1234
   \<and> snd (showNotification sample_constants sample_env
            ((sample_state (JBool True)) \<lparr> notificationTimeouts := JObj [(''short'', JNum 1234)] \<rparr>)
            sample_store (Ref 1) (JStr ''short''))
      = Inr (Some \<lparr> action_props = Ref 1, action_timeout = JNum 10000,
                     action_uid = JStr ''1700000000000'' \<rparr>)"
  by (simp add: getNotificationTimeout_def coalesce_def
        show_defs bind_simps sample_defs cong: bindS_weak_cong bindE_weak_cong)

text \<open>
  C6. Whenever \<^verbatim>\<open>showNotification\<close> dispatches an action, the description of the
  payload it carries is determined by the \<^verbatim>\<open>deviceMessageType\<close> of the parsed
  description: the content of the message for \<^verbatim>\<open>MESSAGE\<close>, a fixed text for
  \<^verbatim>\<open>CONSULTATION_ENDED\<close>, for \<^verbatim>\<open>PAUSE_SESSION\<close> and for \<^verbatim>\<open>RESUME_SESSION\<close>, and
  the raised-hand text for every other value.
\<close>

theorem showNotification_description_text:
  assumes "snd (showNotification cs env app st props ty) = Inr (Some a)"
  shows "opt_get (fst (showNotification cs env app st props ty)) (action_props a) ''description'' =
           (if description_type env st props = JStr ''MESSAGE''
              then opt_member (parsed_description env st props) ''content''
            else if description_type env st props = JStr ''CONSULTATION_ENDED''
              then JStr ''Consulation phase has ended''
            else if description_type env st props = JStr ''PAUSE_SESSION''
              then JStr ''Session is paused''
            else if description_type env st props = JStr ''RESUME_SESSION''
              then JStr ''Session is resumed''
            else JStr ''Raised a Hand'')"
  using emitted_characterisation(3)[OF assms]
  by (simp add: display_text_def description_type_def)

theorem showNotification_description_text_witness:
  "snd (showNotification sample_constants sample_env (sample_state (JBool True)) sample_store
          (Ref 1) JUndefined)
     = Inr (Some \<lparr> action_props = Ref 1, action_timeout = JNum 10000,
                    action_uid = JStr ''1700000000000'' \<rparr>)
   \<and> description_type sample_env sample_store (Ref 1) = JStr ''MESSAGE''
   \<and> opt_get (fst (showNotification sample_constants sample_env (sample_state (JBool True))
                     sample_store (Ref 1) JUndefined)) (Ref 1) ''description'' = JStr ''hello''"
proof -
  have h: "snd (showNotification sample_constants sample_env (sample_state (JBool True))
                  sample_store (Ref 1) JUndefined)
             = Inr (Some \<lparr> action_props = Ref 1, action_timeout = JNum 10000,
                            action_uid = JStr ''1700000000000'' \<rparr>)"
    by (simp add: show_defs bind_simps sample_defs cong: bindS_weak_cong bindE_weak_cong)
  from showNotification_description_text[OF h] h show ?thesis
    by (simp add: description_type_def parsed_description_def sample_defs)
qed



text \<open>
  C8. The claim: an empty or falsy payload is a silent no-op. With the feature flag set
  the code throws a TypeError on the empty object and on the omitted payload, which
  defaults to the empty object; on \<^verbatim>\<open>null\<close> it throws whatever the flag is, since the
  test \<^verbatim>\<open>if (!props) return\<close> comes after \<^verbatim>\<open>restructureProps\<close> has read
  \<^verbatim>\<open>props.description\<close>.
\<close>

theorem showNotification_empty_payload_throws:
  "showNotification sample_constants sample_env (sample_state (JBool True)) empty_store
     (Val (JObj [])) JUndefined = (empty_store, Inl TypeError)
   \<and> showNotification sample_constants sample_env (sample_state (JBool True)) empty_store
     (Val JUndefined) JUndefined = (empty_store, Inl TypeError)
   \<and> showNotification sample_constants sample_env (sample_state (JBool False)) empty_store
     (Val JNull) JUndefined = (empty_store, Inl TypeError)"
  by (simp add: show_defs bind_simps sample_defs cong: bindS_weak_cong bindE_weak_cong)

text \<open>
  C9. The claim: a payload without a description, such as the one the flush of joined
  participants builds, does not make the thunk throw. With the feature flag set the code
  throws a TypeError at \<^verbatim>\<open>props.description.handledAt\<close>, the one read of the
  description that is not guarded by \<^verbatim>\<open>?.\<close>.
\<close>

theorem showNotification_without_description_throws:
  "showNotification sample_constants sample_env (sample_state (JBool True)) empty_store
     (Val (JObj [(''titleArguments'', JObj [(''name'', JStr ''Ann'')]),
                 (''titleKey'', JStr ''notify.connectedOneMember'')]))
     (JStr ''short'') = (empty_store, Inl TypeError)"
  by (simp add: show_defs bind_simps sample_defs cong: bindS_weak_cong bindE_weak_cong)

text \<open>
  C10, as the code has it. When the payload is an object the caller keeps, its description
  is truthy and \<^verbatim>\<open>JSON.parse\<close> turns it into a value that is not \<^verbatim>\<open>null\<close>, the run
  does not throw and writes to that object only: \<^verbatim>\<open>messageId\<close>, \<^verbatim>\<open>title\<close>,
  \<^verbatim>\<open>isEndStream\<close> and \<^verbatim>\<open>isMicMuted\<close> are set from the parsed description, every
  other property but \<^verbatim>\<open>description\<close> is as before, and the description is the display
  text when an action is dispatched, which then carries the same object, and the parsed
  description when nothing is dispatched.
\<close>

theorem showNotification_mutates_in_place:
  assumes "truthy (lookup (st r) ''description'')"
      and "JSON_parse env (lookup (st r) ''description'') = Some p"
      and "\<not> nullish p"
  shows "(let run = showNotification cs env app st (Ref r) ty in
          (\<forall>b. b \<noteq> r \<longrightarrow> fst run b = st b)
        \<and> (\<forall>k. k \<notin> {''description'', ''messageId'', ''title'', ''isEndStream'', ''isMicMuted''}
                 \<longrightarrow> lookup (fst run r) k = lookup (st r) k)
        \<and> lookup (fst run r) ''messageId''
            = (if nullish (opt_member p ''id'') then JStr ''raisAHand'' else opt_member p ''id'')
        \<and> lookup (fst run r) ''title''
            = (if opt_member p ''senderInfo'' = JUndefined then JStr ''ViCE''
               else opt_member (opt_member p ''senderInfo'') ''name'')
        \<and> lookup (fst run r) ''isEndStream''
            = JBool (opt_member p ''deviceMessageType'' = JStr ''CONSULTATION_ENDED'')
        \<and> lookup (fst run r) ''isMicMuted''
            = (if opt_member p ''deviceMessageType'' = JStr ''PAUSE_SESSION'' then JBool True
               else if opt_member p ''deviceMessageType'' = JStr ''RESUME_SESSION'' then JBool False
               else JNull)
        \<and> (case snd run of
              Inl e \<Rightarrow> False
            | Inr None \<Rightarrow> lookup (fst run r) ''description'' = p
            | Inr (Some a) \<Rightarrow> action_props a = Ref r
                               \<and> lookup (fst run r) ''description'' = display_text p))"
proof -
  have run: "showNotification cs env app st (Ref r) ty
               = lift_result st (Ref r) (finish cs env app (restructured p (st r)) p)"
    using assms by (simp add: showNotification_object show_fields_def)
  show ?thesis
  proof (cases "eligible app p (restructured p (st r))")
    case True
    with assms show ?thesis
      unfolding run
      by (simp add: finish_def lift_result_def lookup_put restructured_def
            messageId_of_def title_of_def micMuted_of_def)
  next
    case False
    with assms show ?thesis
      unfolding run
      by (simp add: finish_def lift_result_def lookup_put restructured_def
            messageId_of_def title_of_def micMuted_of_def)
  qed
qed

theorem showNotification_mutates_in_place_witness:
  \<open>truthy (lookup (sample_store 0) ''description'')
   \<and> JSON_parse sample_env (lookup (sample_store 0) ''description'')
       = Some (JObj [(''deviceMessageType'', JStr ''PAUSE_SESSION'')])
   \<and> snd (showNotification sample_constants sample_env (sample_state (JBool True)) sample_store
            (Ref 0) JUndefined)
       = Inr (Some \<lparr> action_props = Ref 0, action_timeout = JNum 1, action_uid = JStr ''n1'' \<rparr>)
   \<and> lookup (fst (showNotification sample_constants sample_env (sample_state (JBool True))
                     sample_store (Ref 0) JUndefined) 0) ''description'' = JStr ''Session is paused''
   \<and> lookup (fst (showNotification sample_constants sample_env (sample_state (JBool True))
                     sample_store (Ref 0) JUndefined) 0) ''isMicMuted'' = JBool True
   \<and> lookup (fst (showNotification sample_constants sample_env (sample_state (JBool True))
                     sample_store (Ref 0) JUndefined) 0) ''uid'' = JStr ''n1''\<close>
proof -
  have t: \<open>truthy (lookup (sample_store 0) ''description'')\<close>
    by (simp add: sample_defs)
  have j: \<open>JSON_parse sample_env (lookup (sample_store 0) ''description'')
             = Some (JObj [(''deviceMessageType'', JStr ''PAUSE_SESSION'')])\<close>
    by (simp add: sample_defs)
  have n: \<open>\<not> nullish (JObj [(''deviceMessageType'', JStr ''PAUSE_SESSION'')])\<close>
    by simp
  have h: \<open>snd (showNotification sample_constants sample_env (sample_state (JBool True)) sample_store
            (Ref 0) JUndefined)
       = Inr (Some \<lparr> action_props = Ref 0, action_timeout = JNum 1, action_uid = JStr ''n1'' \<rparr>)\<close>
    by (simp add: show_defs bind_simps sample_defs cong: bindS_weak_cong bindE_weak_cong)
  have u: \<open>lookup (sample_store 0) ''uid'' = JStr ''n1''\<close>
    by (simp add: sample_defs)
  from showNotification_mutates_in_place[where st = sample_store and r = 0 and env = sample_env
         and p = "JObj [(''deviceMessageType'', JStr ''PAUSE_SESSION'')]"
         and cs = sample_constants and app = "sample_state (JBool True)" and ty = JUndefined,
         OF t j n]
       t j h u
  show ?thesis
    by (simp add: Let_def display_text_def)
qed

text \<open>
  C10, as the claim has it, fails for a payload that is not displayed: the description
  is replaced by its parsed form and stays so.
\<close>

theorem showNotification_leaves_parsed_description:
  "snd (showNotification sample_constants sample_env (sample_state (JBool True)) sample_store
          (Ref 2) JUndefined) = Inr None
   \<and> fst (showNotification sample_constants sample_env (sample_state (JBool True)) sample_store
          (Ref 2) JUndefined) 2
      = [(''description'', JObj [(''handledAt'', JNum 1)]),
         (''messageId'', JStr ''raisAHand''),
         (''title'', JStr ''ViCE''),
         (''isEndStream'', JBool False),
         (''isMicMuted'', JNull)]"
  by (simp add: show_defs bind_simps sample_defs cong: bindS_weak_cong bindE_weak_cong)

end
